theory Spec2Isabelle
  imports
    Main
    "HOL-Library.Word"
    "HOL-Library.Char_ord"
    "HOL-Library.List_Lexorder"
begin

section \<open>Data model\<close>

text \<open>
  A \<open>plumbing.Hash\<close> is an array of 20 bytes; it is read here as one 160-bit word, most
  significant byte first. \<open>plumbing.ZeroHash\<close> is the all-zero array.
\<close>

type_synonym hash = "160 word"

definition ZeroHash :: hash where
  "ZeroHash = 0"

text \<open>\<open>EmptyTreeHash\<close> of types.go, the hash of the tree without entries, as text.\<close>

definition EmptyTreeHash :: string where
  "EmptyTreeHash = ''4b825dc642cb6eb9a060e54bf8d69288fbee4904''"

text \<open>\<open>object.Signature\<close>; the time is kept as seconds since the epoch.\<close>

record Signature =
  Name :: string
  Email :: string
  When :: int

text \<open>
  \<open>object.Commit\<close>, with the fields this repository reads and writes. The \<open>Hash\<close> field
  of a loaded commit is the hash it was looked up under.
\<close>

record Commit =
  Author :: Signature
  Committer :: Signature
  Message :: string
  TreeHash :: hash
  ParentHashes :: "hash list"

record TreeEntry =
  entryName :: string
  entryMode :: string
  entryHash :: hash

record Tree =
  Entries :: "TreeEntry list"

datatype Object = CommitObject Commit | TreeObject Tree | BlobObject string

text \<open>
  \<open>plumbing.Reference\<close>: a hash reference or a symbolic one. \<open>Hash()\<close> of a symbolic
  reference is the zero hash, \<open>Target()\<close> of a hash reference is the empty name.
\<close>

datatype Reference = HashReference string hash | SymbolicReference string string

fun refName :: "Reference \<Rightarrow> string" where
  "refName (HashReference n h) = n"
| "refName (SymbolicReference n t) = n"

fun refHash :: "Reference \<Rightarrow> hash" where
  "refHash (HashReference n h) = h"
| "refHash (SymbolicReference n t) = ZeroHash"

text \<open>
  The opened repository: the object store as a map from hash to object, and the
  references in the order \<open>repo.References()\<close> iterates them.
\<close>

record Repository =
  objects :: "hash \<rightharpoonup> Object"
  refs :: "Reference list"

text \<open>
  The write side of \<open>repo.Storer\<close>. The hash of an encoded object is a function of the
  object; encoding and writing may fail, which the record's predicates decide.
\<close>

record Storer =
  objectHash :: "Object \<Rightarrow> hash"
  encodeFails :: "Object \<Rightarrow> bool"
  storeFails :: "Object \<Rightarrow> bool"
  setReferenceFails :: "Reference \<Rightarrow> bool"

datatype error =
    ErrEncodeCommit
  | ErrStoreCommit
  | ErrEncodeTree
  | ErrStoreTree
  | ErrObjectNotFound
  | ErrNoReplaceRefs
  | ErrSetReference string
  | PanicSliceBounds

section \<open>Object store access\<close>

text \<open>\<open>repo.CommitObject(h)\<close>: the commit stored under \<open>h\<close>, or an error.\<close>

definition commitObject :: "Repository \<Rightarrow> hash \<Rightarrow> Commit option" where
  "commitObject repo h =
     (case objects repo h of Some (CommitObject c) \<Rightarrow> Some c | _ \<Rightarrow> None)"

text \<open>\<open>repo.TreeObject(h)\<close>: the tree stored under \<open>h\<close>, or an error.\<close>

definition treeObject :: "Repository \<Rightarrow> hash \<Rightarrow> Tree option" where
  "treeObject repo h =
     (case objects repo h of Some (TreeObject t) \<Rightarrow> Some t | _ \<Rightarrow> None)"

text \<open>
  Modelled from the spec: \<open>store(Object) -> Hash\<close> of the Store Accessor (content-addressed:
  the object is kept under the hash of its encoding). \<open>repo.Storer.SetEncodedObject\<close>
  belongs to the go-git library.
\<close>

definition setEncodedObject :: "Storer \<Rightarrow> Repository \<Rightarrow> Object \<Rightarrow> (hash \<times> Repository) option" where
  "setEncodedObject st repo obj =
     (if storeFails st obj then None
      else Some (objectHash st obj,
                 repo\<lparr>objects := (objects repo)(objectHash st obj \<mapsto> obj)\<rparr>))"


text \<open>
  Modelled from the spec: \<open>setReference(name, hash)\<close> of the Store Accessor: the
  reference of that name is replaced, or added when there is none.
  \<open>repo.Storer.SetReference\<close> belongs to the go-git library.
\<close>

fun putReference :: "Reference \<Rightarrow> Reference list \<Rightarrow> Reference list" where
  "putReference new [] = [new]"
| "putReference new (r # rs) =
     (if refName r = refName new then new # rs else r # putReference new rs)"

definition setReference :: "Repository \<Rightarrow> Reference \<Rightarrow> Repository" where
  "setReference repo new = repo\<lparr>refs := putReference new (refs repo)\<rparr>"

section \<open>Hashes as text\<close>

text \<open>
  \<open>Hash.String()\<close> renders the 20 bytes as 40 lower-case hexadecimal digits.
\<close>

definition hexDigit :: "nat \<Rightarrow> char" where
  "hexDigit n = ''0123456789abcdef'' ! n"

fun hexString :: "nat \<Rightarrow> hash \<Rightarrow> string" where
  "hexString 0 v = []"
| "hexString (Suc k) v = hexString k (v div 16) @ [hexDigit (unat (v mod 16))]"

definition Hash_String :: "hash \<Rightarrow> string" where
  "Hash_String h = hexString 40 h"

text \<open>
  \<open>plumbing.NewHash(s)\<close> decodes \<open>s\<close> with \<open>hex.DecodeString\<close>, drops the error, and
  copies what was decoded into a zeroed 20-byte array: the pairs of hexadecimal digits
  before the first character that is not one, at most 20 of them, the rest zero.
\<close>

definition fromHexChar :: "char \<Rightarrow> nat option" where
  "fromHexChar c =
     (let n = (of_char c :: nat)
      in if 48 \<le> n \<and> n \<le> 57 then Some (n - 48)
         else if 97 \<le> n \<and> n \<le> 102 then Some (n - 87)
         else if 65 \<le> n \<and> n \<le> 70 then Some (n - 55)
         else None)"

fun hexDecode :: "string \<Rightarrow> nat list" where
  "hexDecode (p # q # rest) =
     (case fromHexChar p of
        None \<Rightarrow> []
      | Some a \<Rightarrow>
          (case fromHexChar q of
             None \<Rightarrow> []
           | Some b \<Rightarrow> (a * 16 + b) # hexDecode rest))"
| "hexDecode [p] = []"
| "hexDecode [] = []"

definition NewHash :: "string \<Rightarrow> hash" where
  "NewHash s =
     (let b = take 20 (hexDecode s)
      in foldl (\<lambda>v x. v * 256 + of_nat x) 0 (b @ replicate (20 - length b) 0))"

section \<open>Hashes as text: decoding undoes rendering\<close>

lemma fromHexChar_hexDigit: "n < 16 \<Longrightarrow> fromHexChar (hexDigit n) = Some n"
proof -
  assume "n < 16"
  then have "n \<in> set [0..<16]" by simp
  then have "n \<in> {0, 1, 2, 3, 4, 5, 6, 7, 8, 9, 10, 11, 12, 13, 14, 15}"
    by (simp add: upt_rec numeral_eq_Suc) 
  then show ?thesis
    by (auto simp: hexDigit_def fromHexChar_def)
qed

lemma length_hexString [simp]: "length (hexString k v) = k"
  by (induction k arbitrary: v) auto

lemma hexDecode_append:
  "length xs = 2 * length (hexDecode xs) \<Longrightarrow> hexDecode (xs @ ys) = hexDecode xs @ hexDecode ys"
  by (induction xs rule: hexDecode.induct) (auto split: option.splits)

text \<open>The bytes of a hash, most significant first.\<close>

fun bytesOf :: "nat \<Rightarrow> hash \<Rightarrow> nat list" where
  "bytesOf 0 v = []"
| "bytesOf (Suc n) v = bytesOf n (v div 256) @ [unat (v mod 256)]"

lemma length_bytesOf [simp]: "length (bytesOf n v) = n"
  by (induction n arbitrary: v) auto

lemma nibble_lt: "unat ((v :: hash) mod 16) < 16"
  by (simp add: unat_mod word_less_nat_alt[symmetric] unat_word_ariths) 

lemma div16_div16: "(v :: hash) div 16 div 16 = v div 256"
proof -
  have "unat (v div 16 div 16) = unat v div 16 div 16" by (simp add: unat_div)
  also have "\<dots> = unat v div (16 * 16)" by (simp only: div_mult2_eq)
  also have "\<dots> = unat (v div 256)" by (simp add: unat_div)
  finally show ?thesis by (simp only: word_unat_eq_iff)
qed

lemma byte_of_nibbles:
  "unat ((v :: hash) div 16 mod 16) * 16 + unat (v mod 16) = unat (v mod 256)"
proof -
  have "unat (v mod 256) = unat v mod (16 * 16)" by (simp add: unat_mod)
  also have "\<dots> = 16 * (unat v div 16 mod 16) + unat v mod 16" by (simp only: mod_mult2_eq)
  also have "\<dots> = unat (v div 16 mod 16) * 16 + unat (v mod 16)"
    by (simp add: unat_mod unat_div)
  finally show ?thesis by simp
qed

lemma hexDecode_hexString:
  "hexDecode (hexString (2 * n) v) = bytesOf n v"
proof (induction n arbitrary: v)
  case 0
  then show ?case by simp
next
  case (Suc n)
  let ?A = "hexString (2 * n) (v div 256)"
  let ?d1 = "hexDigit (unat (v div 16 mod 16))"
  let ?d0 = "hexDigit (unat (v mod 16))"
  have "hexString (2 * Suc n) v = ?A @ [?d1, ?d0]"
    by (simp add: div16_div16)
  moreover have "length ?A = 2 * length (hexDecode ?A)"
    by (simp add: Suc.IH)
  moreover have "hexDecode [?d1, ?d0] = [unat (v mod 256)]"
    by (simp add: fromHexChar_hexDigit nibble_lt byte_of_nibbles)
  ultimately show ?case
    by (simp add: hexDecode_append Suc.IH)
qed

lemma foldl_bytesOf:
  "foldl (\<lambda>v x. v * 256 + of_nat x) (acc :: hash) (bytesOf n v) =
     push_bit (8 * n) acc + take_bit (8 * n) v"
proof (induction n arbitrary: v)
  case 0
  then show ?case by simp
next
  case (Suc n)
  have split: "take_bit (8 * n + 8) v = push_bit 8 (take_bit (8 * n) (drop_bit 8 v)) + take_bit 8 v"
    using bits_ident[of 8 "take_bit (8 * n + 8) v"]
    by (simp add: drop_bit_take_bit take_bit_take_bit min_def)
  have d: "v div 256 = drop_bit 8 v" by (simp add: drop_bit_eq_div)
  have m: "word_of_nat (unat (v mod 256)) = take_bit 8 v" by (simp add: take_bit_eq_mod)
  have "foldl (\<lambda>v x. v * 256 + of_nat x) acc (bytesOf (Suc n) v) =
          (push_bit (8 * n) acc + take_bit (8 * n) (drop_bit 8 v)) * 256 + take_bit 8 v"
    by (simp add: Suc.IH d m del: of_nat_unat)
  also have "\<dots> = push_bit (8 * n) acc * 256 +
      (take_bit (8 * n) (drop_bit 8 v) * 256 + take_bit 8 v)"
    by (simp only: distrib_right add.assoc)
  also have "take_bit (8 * n) (drop_bit 8 v) * 256 + take_bit 8 v = take_bit (8 * Suc n) v"
    using split by (simp add: push_bit_eq_mult add.commute)
  also have "push_bit (8 * n) acc * 256 = push_bit (8 * Suc n) acc"
    by (simp add: push_bit_eq_mult power_add)
  finally show ?case .
qed

lemma NewHash_Hash_String: "NewHash (Hash_String h) = h"
proof -
  have "hexDecode (hexString 40 h) = bytesOf 20 h"
    using hexDecode_hexString[of 20 h] by simp
  then show ?thesis
    by (simp add: NewHash_def Hash_String_def foldl_bytesOf take_bit_word_eq_self)
qed

section \<open>Reference names\<close>

definition HasPrefix :: "string \<Rightarrow> string \<Rightarrow> bool" where
  "HasPrefix s pre = (take (length pre) s = pre)"

text \<open>\<open>ReferenceName.IsBranch\<close> and \<open>IsTag\<close> of go-git test the name's prefix.\<close>

definition IsBranch :: "string \<Rightarrow> bool" where
  "IsBranch n = HasPrefix n ''refs/heads/''"

definition IsTag :: "string \<Rightarrow> bool" where
  "IsTag n = HasPrefix n ''refs/tags/''"

text \<open>The test \<open>len(refName) > 13 && refName[:13] == "refs/replace/"\<close> of filter.go.\<close>

definition isReplaceRef :: "string \<Rightarrow> bool" where
  "isReplaceRef n = (length n > 13 \<and> take 13 n = ''refs/replace/'')"

section \<open>What the Go runtime leaves open\<close>

text \<open>
  Go does not fix the order in which \<open>range\<close> visits the keys of a map, and
  \<open>sort.Slice\<close> runs an insertion sort on a slice of at most 12 elements and a
  pattern-defeating quicksort on a longer one. The record holds what the runtime
  decides: the order of \<open>range\<close> over a set of hashes (given in insertion order) and
  over the replace map, the sort of a slice longer than 12, and the clock.
\<close>

record Runtime =
  rangeHashes :: "hash list \<Rightarrow> hash list"
  rangeReplaceMap :: "(string \<times> string) list \<Rightarrow> (string \<times> string) list"
  sortLong :: "(hash \<Rightarrow> hash \<Rightarrow> bool) \<Rightarrow> hash list \<Rightarrow> hash list"
  timeNow :: int

text \<open>
  \<open>insertionSortLessFunc\<close> of Go's package sort:
  \<open>for i := a + 1; i < b; i++ { for j := i; j > a && less(j, j-1); j-- { swap(j, j-1) } }\<close>.
\<close>

fun insertionInner :: "('a \<Rightarrow> 'a \<Rightarrow> bool) \<Rightarrow> nat \<Rightarrow> 'a list \<Rightarrow> 'a list" where
  "insertionInner lessFn 0 data = data"
| "insertionInner lessFn (Suc j) data =
     (if lessFn (data ! Suc j) (data ! j)
      then insertionInner lessFn j (data[Suc j := data ! j, j := data ! Suc j])
      else data)"

definition insertionSort :: "('a \<Rightarrow> 'a \<Rightarrow> bool) \<Rightarrow> 'a list \<Rightarrow> 'a list" where
  "insertionSort lessFn data = foldl (\<lambda>d i. insertionInner lessFn i d) data [1..<length data]"

definition sort_Slice :: "Runtime \<Rightarrow> (hash \<Rightarrow> hash \<Rightarrow> bool) \<Rightarrow> hash list \<Rightarrow> hash list" where
  "sort_Slice rt lessFn data =
     (if length data \<le> 12 then insertionSort lessFn data else sortLong rt lessFn data)"

section \<open>filter.go: the commits to rewrite\<close>

text \<open>
  \<open>getReplaceRefs\<close>: the replace map as a list of pairs, one per key. The function
  prints \<open>oldHash[:8]\<close>, which panics when the name after the prefix is shorter than 8.
\<close>

fun assign :: "'k \<Rightarrow> 'v \<Rightarrow> ('k \<times> 'v) list \<Rightarrow> ('k \<times> 'v) list" where
  "assign k v [] = [(k, v)]"
| "assign k v ((k', v') # m) = (if k' = k then (k, v) # m else (k', v') # assign k v m)"

fun getReplaceRefsLoop :: "Reference list \<Rightarrow> (string \<times> string) list \<Rightarrow> error + (string \<times> string) list" where
  "getReplaceRefsLoop [] replaceMap = Inr replaceMap"
| "getReplaceRefsLoop (ref # rest) replaceMap =
     (if isReplaceRef (refName ref)
      then (let oldHash = drop 13 (refName ref);
                newHash = Hash_String (refHash ref)
            in if length oldHash < 8 then Inl PanicSliceBounds
               else getReplaceRefsLoop rest (assign oldHash newHash replaceMap))
      else getReplaceRefsLoop rest replaceMap)"

definition getReplaceRefs :: "Repository \<Rightarrow> error + (string \<times> string) list" where
  "getReplaceRefs repo = getReplaceRefsLoop (refs repo) []"

text \<open>
  \<open>walkCommits\<close> marks the hash as visited and walks the parents of the commit; the
  errors of the recursive calls are dropped. The visited map is kept as the list of
  its keys in the order they were added. \<open>walkParents\<close> is the loop over
  \<open>commit.ParentHashes\<close>.
\<close>

function walkCommits :: "Repository \<Rightarrow> hash \<Rightarrow> hash list \<Rightarrow> error option \<times> hash list"
  and walkParents :: "Repository \<Rightarrow> hash list \<Rightarrow> hash list \<Rightarrow> hash list" where
  "walkCommits repo h visited =
     (if h \<in> set visited then (None, visited)
      else (case commitObject repo h of
              None \<Rightarrow> (Some ErrObjectNotFound, visited @ [h])
            | Some commit \<Rightarrow> (None, walkParents repo (ParentHashes commit) (visited @ [h]))))"
| "walkParents repo [] visited = visited"
| "walkParents repo (parentHash # rest) visited =
     walkParents repo rest (snd (walkCommits repo parentHash visited))"
  by pat_completeness auto

text \<open>
  Termination: a call that goes on adds a hash that was not visited, there are finitely
  many hashes, and a call never removes one.
\<close>

definition unvisited :: "hash list \<Rightarrow> nat" where
  "unvisited visited = card (UNIV - set visited)"

lemma unvisited_mono: "set v \<subseteq> set v' \<Longrightarrow> unvisited v' \<le> unvisited v"
  unfolding unvisited_def by (rule card_mono) auto

lemma unvisited_less: "h \<notin> set v \<Longrightarrow> unvisited (v @ [h]) < unvisited v"
  unfolding unvisited_def by (rule psubset_card_mono) auto

lemma walk_dom_grows:
  "walkCommits_walkParents_dom (Inl (repo, h, visited)) \<Longrightarrow>
     set visited \<subseteq> set (snd (walkCommits repo h visited))"
  "walkCommits_walkParents_dom (Inr (repo, ps, visited)) \<Longrightarrow>
     set visited \<subseteq> set (walkParents repo ps visited)"
proof (induction repo h visited and repo ps visited rule: walkCommits_walkParents.pinduct)
  case (1 repo h visited)
  then show ?case
    by (auto simp: walkCommits.psimps split: option.splits)
next
  case (2 repo visited)
  then show ?case by (simp add: walkParents.psimps)
next
  case (3 repo parentHash rest visited)
  then show ?case by (auto simp: walkParents.psimps)
qed

termination walkCommits
proof (relation "inv_image (less_than <*lex*> less_than)
    (\<lambda>x. case x of Inl (repo, h, v) \<Rightarrow> (unvisited v, 0)
                   | Inr (repo, ps, v) \<Rightarrow> (unvisited v, Suc (length ps)))", goal_cases)
  case 1
  then show ?case by (intro wf_inv_image wf_lex_prod wf_less_than)
next
  case (2 repo h visited c)
  then show ?case by (simp add: unvisited_less)
next
  case (3 repo parentHash rest visited)
  then show ?case by simp
next
  case (4 repo parentHash rest visited)
  from walk_dom_grows(1)[OF 4]
  have "unvisited (snd (walkCommits repo parentHash visited)) \<le> unvisited visited"
    by (rule unvisited_mono)
  then show ?case by auto
qed

declare walkCommits.simps [simp del]

text \<open>The loop over the references that collects \<open>startCommits\<close>.\<close>

fun startCommitsLoop :: "Reference list \<Rightarrow> hash list \<Rightarrow> hash list" where
  "startCommitsLoop [] startCommits = startCommits"
| "startCommitsLoop (ref # rest) startCommits =
     (if isReplaceRef (refName ref) then startCommitsLoop rest startCommits
      else if IsBranch (refName ref) \<or> IsTag (refName ref)
           then startCommitsLoop rest (startCommits @ [refHash ref])
           else startCommitsLoop rest startCommits)"

text \<open>The loop that walks from every start commit; the error of a walk is dropped.\<close>

fun walkAll :: "Repository \<Rightarrow> hash list \<Rightarrow> hash list \<Rightarrow> hash list" where
  "walkAll repo [] commitSet = commitSet"
| "walkAll repo (startHash # rest) commitSet =
     walkAll repo rest (snd (walkCommits repo startHash commitSet))"

text \<open>
  The comparison given to \<open>sort.Slice\<close>, on the two hashes the indices stand for.
\<close>

definition lessCommits :: "Repository \<Rightarrow> hash \<Rightarrow> hash \<Rightarrow> bool" where
  "lessCommits repo a b =
     (case (commitObject repo a, commitObject repo b) of
        (Some ci, Some cj) \<Rightarrow>
          if a \<in> set (ParentHashes cj) then True
          else if b \<in> set (ParentHashes ci) then False
          else Hash_String a < Hash_String b
      | _ \<Rightarrow> Hash_String a < Hash_String b)"

text \<open>
  \<open>getAllCommitsTopological\<close>. Reading the references of the opened repository is
  taken to succeed, so the function has no error to return.
\<close>

definition getAllCommitsTopological :: "Runtime \<Rightarrow> Repository \<Rightarrow> hash list" where
  "getAllCommitsTopological rt repo =
     (let startCommits = startCommitsLoop (refs repo) [];
          commitSet = walkAll repo startCommits [];
          commits = rangeHashes rt commitSet
      in sort_Slice rt (lessCommits repo) commits)"

section \<open>filter.go: rewriteCommit\<close>

text \<open>
  The loop over \<open>oldCommit.ParentHashes\<close>: it appends to \<open>newParents\<close> and sets
  \<open>needsRewrite\<close> when a parent is a key of the commit map.
\<close>

fun rewriteParents :: "(hash \<rightharpoonup> hash) \<Rightarrow> hash list \<Rightarrow> hash list \<times> bool \<Rightarrow> hash list \<times> bool" where
  "rewriteParents commitMap [] (newParents, needsRewrite) = (newParents, needsRewrite)"
| "rewriteParents commitMap (parentHash # rest) (newParents, needsRewrite) =
     (case commitMap parentHash of
        Some newParentHash \<Rightarrow> rewriteParents commitMap rest (newParents @ [newParentHash], True)
      | None \<Rightarrow> rewriteParents commitMap rest (newParents @ [parentHash], needsRewrite))"

text \<open>
  \<open>rewriteCommit\<close> returns the new hash and the repository after the call, or an error;
  on an error nothing was stored.
\<close>

definition rewriteCommit ::
  "Storer \<Rightarrow> Repository \<Rightarrow> hash \<Rightarrow> (hash \<rightharpoonup> hash) \<Rightarrow> error + (hash \<times> Repository)" where
  "rewriteCommit st repo oldHash commitMap =
     (case commitMap oldHash of
        Some newHash \<Rightarrow> Inr (newHash, repo)
      | None \<Rightarrow>
          (case commitObject repo oldHash of
             None \<Rightarrow> Inr (oldHash, repo)
           | Some oldCommit \<Rightarrow>
               (let (newParents, needsRewrite) =
                      rewriteParents commitMap (ParentHashes oldCommit) ([], False)
                in if \<not> needsRewrite then Inr (oldHash, repo)
                   else
                     (let newCommit = \<lparr>Author = Author oldCommit,
                                       Committer = Committer oldCommit,
                                       Message = Message oldCommit,
                                       TreeHash = TreeHash oldCommit,
                                       ParentHashes = newParents\<rparr>
                      in if encodeFails st (CommitObject newCommit) then Inl ErrEncodeCommit
                         else
                           (case setEncodedObject st repo (CommitObject newCommit) of
                              None \<Rightarrow> Inl ErrStoreCommit
                            | Some (newHash, repo') \<Rightarrow> Inr (newHash, repo'))))))"


section \<open>filter.go: the walk, the references, FilterRepo\<close>

text \<open>
  The loop of \<open>FilterRepo\<close> over the commits: a hash is added to the commit map only
  when \<open>rewriteCommit\<close> returned another one. The loop stops at the first error; the
  repository as it is then is returned with it.
\<close>

fun rewriteCommits ::
  "Storer \<Rightarrow> hash list \<Rightarrow> Repository \<Rightarrow> (hash \<rightharpoonup> hash) \<Rightarrow>
     error option \<times> Repository \<times> (hash \<rightharpoonup> hash)" where
  "rewriteCommits st [] repo commitMap = (None, repo, commitMap)"
| "rewriteCommits st (oldHash # rest) repo commitMap =
     (case rewriteCommit st repo oldHash commitMap of
        Inl e \<Rightarrow> (Some e, repo, commitMap)
      | Inr (newHash, repo') \<Rightarrow>
          rewriteCommits st rest repo'
            (if newHash \<noteq> oldHash then commitMap(oldHash \<mapsto> newHash) else commitMap))"

text \<open>
  \<open>updateAllReferences\<close>: first the references to update are collected, then each is
  set. A failing \<open>SetReference\<close> ends the loop with the error, the earlier references
  already set.
\<close>

fun refsToUpdateLoop ::
  "(hash \<rightharpoonup> hash) \<Rightarrow> Reference list \<Rightarrow> (string \<times> hash \<times> hash) list \<Rightarrow> (string \<times> hash \<times> hash) list" where
  "refsToUpdateLoop commitMap [] refsToUpdate = refsToUpdate"
| "refsToUpdateLoop commitMap (ref # rest) refsToUpdate =
     (if isReplaceRef (refName ref) then refsToUpdateLoop commitMap rest refsToUpdate
      else if \<not> IsBranch (refName ref) \<and> \<not> IsTag (refName ref)
           then refsToUpdateLoop commitMap rest refsToUpdate
           else (case commitMap (refHash ref) of
                   Some newHash \<Rightarrow>
                     refsToUpdateLoop commitMap rest
                       (refsToUpdate @ [(refName ref, refHash ref, newHash)])
                 | None \<Rightarrow> refsToUpdateLoop commitMap rest refsToUpdate))"

fun updateRefsLoop ::
  "Storer \<Rightarrow> (string \<times> hash \<times> hash) list \<Rightarrow> Repository \<Rightarrow> error option \<times> Repository" where
  "updateRefsLoop st [] repo = (None, repo)"
| "updateRefsLoop st ((name, oldHash, newHash) # rest) repo =
     (let newRef = HashReference name newHash
      in if setReferenceFails st newRef then (Some (ErrSetReference name), repo)
         else updateRefsLoop st rest (setReference repo newRef))"

definition updateAllReferences ::
  "Storer \<Rightarrow> Repository \<Rightarrow> (hash \<rightharpoonup> hash) \<Rightarrow> error option \<times> Repository" where
  "updateAllReferences st repo commitMap =
     updateRefsLoop st (refsToUpdateLoop commitMap (refs repo) []) repo"

text \<open>
  \<open>FilterRepo\<close>, from the opened repository on. The commit map starts with the replace
  references, visited in the order the runtime gives.
\<close>

definition directReplacements :: "(string \<times> string) list \<Rightarrow> (hash \<rightharpoonup> hash)" where
  "directReplacements replaceMap =
     foldl (\<lambda>m (oldHash, newHash). m(NewHash oldHash \<mapsto> NewHash newHash)) Map.empty replaceMap"

definition FilterRepo :: "Runtime \<Rightarrow> Storer \<Rightarrow> Repository \<Rightarrow> error option \<times> Repository" where
  "FilterRepo rt st repo =
     (case getReplaceRefs repo of
        Inl e \<Rightarrow> (Some e, repo)
      | Inr replaceMap \<Rightarrow>
          if length replaceMap = 0 then (Some ErrNoReplaceRefs, repo)
          else
            (let commitMap = directReplacements (rangeReplaceMap rt replaceMap);
                 commits = getAllCommitsTopological rt repo
             in case rewriteCommits st commits repo commitMap of
                  (Some e, repo', commitMap') \<Rightarrow> (Some e, repo')
                | (None, repo', commitMap') \<Rightarrow> updateAllReferences st repo' commitMap'))"


section \<open>Example repositories\<close>

text \<open>
  Small repositories for the concrete instances below. \<open>toyStorer\<close> never fails and
  hashes a commit by its tree and parents; the empty tree gets its well-known hash.
\<close>

definition exSig :: Signature where
  "exSig = \<lparr>Name = ''dev'', Email = ''dev@example.org'', When = 1700000000\<rparr>"

definition exCommit :: "hash \<Rightarrow> hash list \<Rightarrow> Commit" where
  "exCommit t ps =
     \<lparr>Author = exSig, Committer = exSig, Message = ''work'', TreeHash = t, ParentHashes = ps\<rparr>"

fun toyHash :: "Object \<Rightarrow> hash" where
  "toyHash (CommitObject c) = TreeHash c + 2 * sum_list (ParentHashes c) + 1"
| "toyHash (TreeObject t) =
     (if Entries t = [] then NewHash EmptyTreeHash else 4096 + of_nat (length (Entries t)))"
| "toyHash (BlobObject b) = 8192 + of_nat (length b)"

definition toyStorer :: Storer where
  "toyStorer = \<lparr>objectHash = toyHash, encodeFails = (\<lambda>obj. False),
                 storeFails = (\<lambda>obj. False), setReferenceFails = (\<lambda>r. False)\<rparr>"

text \<open>
  The runtime that visits map keys in insertion order, and the one that starts at the
  second key and comes round to the first.
\<close>

definition rtInsertion :: Runtime where
  "rtInsertion = \<lparr>rangeHashes = (\<lambda>keys. keys), rangeReplaceMap = (\<lambda>m. m),
                   sortLong = (\<lambda>lessFn data. data), timeNow = 1700000001\<rparr>"

definition rtRotated :: Runtime where
  "rtRotated = \<lparr>rangeHashes = rotate 1, rangeReplaceMap = rotate 1,
                 sortLong = (\<lambda>lessFn data. data), timeNow = 1700000001\<rparr>"

text \<open>
  A chain of three commits, the root \<open>2\<close>, its child \<open>3\<close> and the tip \<open>1\<close>, on one
  branch.
\<close>

definition chainRepo :: Repository where
  "chainRepo = \<lparr>objects = [2 \<mapsto> CommitObject (exCommit 16 []),
                           3 \<mapsto> CommitObject (exCommit 16 [2]),
                           1 \<mapsto> CommitObject (exCommit 16 [3]),
                           16 \<mapsto> TreeObject \<lparr>Entries = []\<rparr>],
                refs = [SymbolicReference ''HEAD'' ''refs/heads/main'',
                        HashReference ''refs/heads/main'' 1]\<rparr>"

text \<open>
  The chain with a replace reference for its root \<open>2\<close>, and the runtime that starts at
  the third key.
\<close>

definition replacedChainRepo :: Repository where
  "replacedChainRepo =
     \<lparr>objects = (objects chainRepo)(42 \<mapsto> CommitObject (exCommit 20 [])),
      refs = [SymbolicReference ''HEAD'' ''refs/heads/main'',
              HashReference ''refs/heads/main'' 1,
              HashReference ''refs/replace/0000000000000000000000000000000000000002'' 42]\<rparr>"

definition rtRotatedTwice :: Runtime where
  "rtRotatedTwice = \<lparr>rangeHashes = rotate 2, rangeReplaceMap = rotate 2,
                      sortLong = (\<lambda>lessFn data. data), timeNow = 1700000001\<rparr>"

section \<open>Properties of rewriteCommit\<close>

lemma rewriteParents_result:
  "rewriteParents commitMap ps (acc, flag) =
     (acc @ map (\<lambda>p. case commitMap p of Some q \<Rightarrow> q | None \<Rightarrow> p) ps,
      flag \<or> list_ex (\<lambda>p. commitMap p \<noteq> None) ps)"
  by (induction ps arbitrary: acc flag) (auto split: option.splits)

text \<open>
  C4. A commit that is not a key of the commit map, and none of whose parents is a key,
  is returned under its own hash, and the repository (so also the object store) is left
  as it was: nothing is encoded or stored. A commit that cannot be read has no parents
  to look at and is returned unchanged as well.
\<close>

theorem rewriteCommit_unchanged:
  assumes "commitMap oldHash = None"
    and "\<And>c. commitObject repo oldHash = Some c \<Longrightarrow> list_all (\<lambda>p. commitMap p = None) (ParentHashes c)"
  shows "rewriteCommit st repo oldHash commitMap = Inr (oldHash, repo)"
proof (cases "commitObject repo oldHash")
  case None
  with assms(1) show ?thesis by (simp add: rewriteCommit_def)
next
  case (Some c)
  from assms(2)[OF Some] have "\<not> list_ex (\<lambda>p. commitMap p \<noteq> None) (ParentHashes c)"
    by (simp add: list_all_iff list_ex_iff)
  with assms(1) Some show ?thesis
    by (simp add: rewriteCommit_def rewriteParents_result)
qed

theorem rewriteCommit_unchanged_witness:
  "[7 \<mapsto> (8 :: hash)] (3 :: hash) = None \<and>
   commitObject chainRepo 3 = Some (exCommit 16 [2]) \<and>
   list_all (\<lambda>p. [7 \<mapsto> (8 :: hash)] p = None) [2 :: hash] \<and>
   rewriteCommit toyStorer chainRepo 3 [7 \<mapsto> (8 :: hash)] = Inr (3, chainRepo)"
proof -
  have key: "[7 \<mapsto> (8 :: hash)] (3 :: hash) = (None :: hash option)" by simp
  have obj: "commitObject chainRepo 3 = Some (exCommit 16 [2])"
    by (simp add: commitObject_def chainRepo_def)
  have parents: "list_all (\<lambda>p. [7 \<mapsto> (8 :: hash)] p = (None :: hash option)) [2 :: hash]" by simp
  have all_parents: "\<And>c. commitObject chainRepo 3 = Some c \<Longrightarrow>
          list_all (\<lambda>p. [7 \<mapsto> (8 :: hash)] p = (None :: hash option)) (ParentHashes c)"
    using obj by (simp add: exCommit_def)
  have "rewriteCommit toyStorer chainRepo 3 [7 \<mapsto> (8 :: hash)] = Inr (3, chainRepo)"
    by (rule rewriteCommit_unchanged[OF key all_parents])
  with key obj parents show ?thesis by blast
qed

section \<open>Properties of the rewrite walk\<close>







text \<open>
  \<open>FilterRepo\<close> runs the walk over the commits \<open>getAllCommitsTopological\<close> gives, from
  the commit map of the replace references.
\<close>

lemma FilterRepo_walk:
  assumes "getReplaceRefs repo = Inr replaceMap" and "replaceMap \<noteq> []"
  shows "FilterRepo rt st repo =
           (case rewriteCommits st (getAllCommitsTopological rt repo) repo
                   (directReplacements (rangeReplaceMap rt replaceMap)) of
              (Some e, repo', commitMap') \<Rightarrow> (Some e, repo')
            | (None, repo', commitMap') \<Rightarrow> updateAllReferences st repo' commitMap')"
  using assms by (simp add: FilterRepo_def Let_def)




section \<open>Properties of updateAllReferences\<close>

text \<open>
  What the claim says of one reference: a branch or a tag whose hash is a key of the
  commit map points at the mapped hash, every other reference (a replace reference
  among them) is as it was.
\<close>

definition repointed :: "(hash \<rightharpoonup> hash) \<Rightarrow> Reference \<Rightarrow> Reference" where
  "repointed commitMap r =
     (if isReplaceRef (refName r) then r
      else if IsBranch (refName r) \<or> IsTag (refName r)
           then (case commitMap (refHash r) of
                   Some newHash \<Rightarrow> HashReference (refName r) newHash
                 | None \<Rightarrow> r)
           else r)"

text \<open>The updates the collecting loop appends for one reference.\<close>

definition updatesFor :: "(hash \<rightharpoonup> hash) \<Rightarrow> Reference \<Rightarrow> (string \<times> hash \<times> hash) list" where
  "updatesFor commitMap r =
     (if isReplaceRef (refName r) then []
      else if \<not> IsBranch (refName r) \<and> \<not> IsTag (refName r) then []
      else (case commitMap (refHash r) of
              Some newHash \<Rightarrow> [(refName r, refHash r, newHash)]
            | None \<Rightarrow> []))"

lemma refsToUpdateLoop_concat:
  "refsToUpdateLoop commitMap rs acc = acc @ concat (map (updatesFor commitMap) rs)"
  by (induction rs arbitrary: acc) (auto simp: updatesFor_def split: option.splits)

lemma refName_repointed [simp]: "refName (repointed commitMap r) = refName r"
  by (simp add: repointed_def split: option.splits)

lemma updatesFor_Nil: "updatesFor commitMap r = [] \<Longrightarrow> repointed commitMap r = r"
  by (auto simp: updatesFor_def repointed_def split: option.splits if_splits)

lemma updatesFor_Cons:
  "updatesFor commitMap r = u # us \<Longrightarrow>
     us = [] \<and> (\<exists>h. u = (refName r, refHash r, h) \<and> repointed commitMap r = HashReference (refName r) h)"
  by (auto simp: updatesFor_def repointed_def split: option.splits if_splits)

text \<open>The references with those whose name is in \<open>N\<close> repointed.\<close>

definition partly :: "(hash \<rightharpoonup> hash) \<Rightarrow> string set \<Rightarrow> Reference list \<Rightarrow> Reference list" where
  "partly commitMap N rs = map (\<lambda>r. if refName r \<in> N then repointed commitMap r else r) rs"

lemma putReference_distinct:
  "distinct (map refName rs) \<Longrightarrow> p \<in> set rs \<Longrightarrow> refName new = refName p \<Longrightarrow>
     putReference new rs = map (\<lambda>r. if refName r = refName p then new else r) rs"
proof (induction rs)
  case Nil
  then show ?case by simp
next
  case (Cons r rs)
  show ?case
  proof (cases "refName r = refName p")
    case True
    with Cons.prems have "\<forall>x \<in> set rs. refName x \<noteq> refName p" by (auto simp: image_iff)
    then have "map (\<lambda>r. if refName r = refName p then new else r) rs = rs"
      by (induction rs) auto
    with True Cons.prems show ?thesis by simp
  next
    case False
    with Cons.prems have "p \<in> set rs" by auto
    with Cons False show ?thesis by simp
  qed
qed

lemma partly_insert_same:
  "repointed commitMap p = p \<Longrightarrow> distinct (map refName rs) \<Longrightarrow> p \<in> set rs \<Longrightarrow>
     partly commitMap (insert (refName p) N) rs = partly commitMap N rs"
  unfolding partly_def
  by (rule map_cong) (auto simp: distinct_map inj_on_def)

lemma partly_put:
  assumes "distinct (map refName rs)" "p \<in> set rs"
  shows "putReference (repointed commitMap p) (partly commitMap N rs) =
           partly commitMap (insert (refName p) N) rs"
proof -
  have d: "distinct (map refName (partly commitMap N rs))"
    using assms(1) by (simp add: partly_def comp_def if_distrib cong: if_cong)
  define q where "q = (if refName p \<in> N then repointed commitMap p else p)"
  have "q \<in> (\<lambda>r. if refName r \<in> N then repointed commitMap r else r) ` set rs"
    unfolding q_def using assms(2) by (rule rev_image_eqI) simp
  then have q: "q \<in> set (partly commitMap N rs)" "refName q = refName p"
    by (simp_all add: partly_def q_def)
  have "putReference (repointed commitMap p) (partly commitMap N rs) =
          map (\<lambda>r. if refName r = refName q then repointed commitMap p else r) (partly commitMap N rs)"
    by (rule putReference_distinct[OF d q(1)]) (simp add: q(2))
  also have "\<dots> = partly commitMap (insert (refName p) N) rs"
    using assms unfolding partly_def q(2)
    by (auto simp: distinct_map inj_on_def)
  finally show ?thesis .
qed

lemma updateRefsLoop_partly:
  assumes "distinct (map refName rs)"
  shows "set ps \<subseteq> set rs \<Longrightarrow> refs repo = partly commitMap N rs \<Longrightarrow>
     updateRefsLoop st (concat (map (updatesFor commitMap) ps)) repo = (err, repo') \<Longrightarrow>
     objects repo' = objects repo \<and>
     (\<exists>N'. refs repo' = partly commitMap N' rs \<and> (err = None \<longrightarrow> N \<union> refName ` set ps \<subseteq> N'))"
proof (induction ps arbitrary: repo N)
  case Nil
  then show ?case by auto
next
  case (Cons p ps)
  from Cons.prems(1) have p: "p \<in> set rs" and ps: "set ps \<subseteq> set rs" by auto
  show ?case
  proof (cases "updatesFor commitMap p")
    case Nil
    from updatesFor_Nil[OF Nil] have same: "repointed commitMap p = p" .
    have r: "refs repo = partly commitMap (insert (refName p) N) rs"
      using Cons.prems(2) partly_insert_same[OF same assms p] by simp
    from Cons.prems(3) Nil
    have run: "updateRefsLoop st (concat (map (updatesFor commitMap) ps)) repo = (err, repo')" by simp
    from Cons.IH[OF ps r run] show ?thesis by auto
  next
    case (Cons u us)
    from updatesFor_Cons[OF Cons] obtain h where
      us: "us = []" and u: "u = (refName p, refHash p, h)"
      and rp: "repointed commitMap p = HashReference (refName p) h" by blast
    show ?thesis
    proof (cases "setReferenceFails st (HashReference (refName p) h)")
      case True
      with Cons.prems(3) Cons us u have "err = Some (ErrSetReference (refName p))" "repo' = repo"
        by auto
      with Cons.prems(2) show ?thesis by auto
    next
      case False
      let ?repo1 = "setReference repo (HashReference (refName p) h)"
      have r1: "refs ?repo1 = partly commitMap (insert (refName p) N) rs"
        using partly_put[OF assms p, of commitMap N] Cons.prems(2) rp
        by (simp add: setReference_def)
      from Cons.prems(3) \<open>updatesFor commitMap p = u # us\<close> us u False
      have run: "updateRefsLoop st (concat (map (updatesFor commitMap) ps)) ?repo1 = (err, repo')"
        by simp
      from Cons.IH[OF ps r1 run] show ?thesis by (auto simp: setReference_def)
    qed
  qed
qed

text \<open>
  Four references and a replace reference: the branch points at \<open>3\<close>, which the commit
  map below replaces, the tag at \<open>2\<close>, which it does not.
\<close>

definition refsRepo :: Repository where
  "refsRepo = chainRepo\<lparr>refs :=
     [SymbolicReference ''HEAD'' ''refs/heads/main'',
      HashReference ''refs/heads/main'' 3,
      HashReference ''refs/tags/v1'' 2,
      HashReference ''refs/remotes/origin/main'' 3,
      HashReference ''refs/replace/0000000000000000000000000000000000000003'' 101]\<rparr>"

text \<open>
  C8. The names of the references of a repository are distinct. Whatever
  \<open>updateAllReferences\<close> returns, the objects are untouched and every reference is
  either as it was or repointed: the one value a reference is ever set to is the commit
  map's value for its old hash, written by one \<open>SetReference\<close>. When the function returns
  without an error, every branch and tag whose hash is a key of the commit map is
  repointed, and every other reference, the replace references among them, is as it was.
  (A state in the middle of the loop is the state returned when the next
  \<open>SetReference\<close> fails, so the second conjunct covers those states too.)
\<close>

theorem updateAllReferences_repoints:
  assumes "distinct (map refName (refs repo))"
    and "updateAllReferences st repo commitMap = (err, repo')"
  shows "objects repo' = objects repo \<and>
         list_all2 (\<lambda>r r'. r' = r \<or> r' = repointed commitMap r) (refs repo) (refs repo') \<and>
         (err = None \<longrightarrow> refs repo' = map (repointed commitMap) (refs repo))"
proof -
  have start: "refs repo = partly commitMap {} (refs repo)" by (simp add: partly_def)
  from assms(2) have run:
    "updateRefsLoop st (concat (map (updatesFor commitMap) (refs repo))) repo = (err, repo')"
    by (simp add: updateAllReferences_def refsToUpdateLoop_concat)
  from updateRefsLoop_partly[OF assms(1) subset_refl start run]
  obtain N' where obj: "objects repo' = objects repo"
    and r: "refs repo' = partly commitMap N' (refs repo)"
    and all: "err = None \<longrightarrow> refName ` set (refs repo) \<subseteq> N'" by auto
  have "list_all2 (\<lambda>r r'. r' = r \<or> r' = repointed commitMap r) (refs repo) (refs repo')"
    unfolding r partly_def by (simp add: list_all2_map2 list_all2_same)
  moreover have "err = None \<longrightarrow> refs repo' = map (repointed commitMap) (refs repo)"
    using all unfolding r partly_def by auto
  ultimately show ?thesis using obj by blast
qed

theorem updateAllReferences_repoints_witness:
  "distinct (map refName (refs refsRepo)) \<and>
   fst (updateAllReferences toyStorer refsRepo [3 \<mapsto> 101]) = None \<and>
   refs (snd (updateAllReferences toyStorer refsRepo [3 \<mapsto> 101])) =
     [SymbolicReference ''HEAD'' ''refs/heads/main'',
      HashReference ''refs/heads/main'' 101,
      HashReference ''refs/tags/v1'' 2,
      HashReference ''refs/remotes/origin/main'' 3,
      HashReference ''refs/replace/0000000000000000000000000000000000000003'' 101]"
proof -
  have d: "distinct (map refName (refs refsRepo))" by (simp add: refsRepo_def)
  have ok: "fst (updateAllReferences toyStorer refsRepo [3 \<mapsto> 101]) = None" by code_simp
  then have run: "updateAllReferences toyStorer refsRepo [3 \<mapsto> 101] =
      (None, snd (updateAllReferences toyStorer refsRepo [3 \<mapsto> 101]))"
    by (simp add: prod_eq_iff)
  from updateAllReferences_repoints[OF d run]
  have "refs (snd (updateAllReferences toyStorer refsRepo [3 \<mapsto> 101])) =
          map (repointed [3 \<mapsto> 101]) (refs refsRepo)" by simp
  also have "\<dots> = [SymbolicReference ''HEAD'' ''refs/heads/main'',
      HashReference ''refs/heads/main'' 101,
      HashReference ''refs/tags/v1'' 2,
      HashReference ''refs/remotes/origin/main'' 3,
      HashReference ''refs/replace/0000000000000000000000000000000000000003'' 101]"
    by code_simp
  finally show ?thesis using d ok by simp
qed

section \<open>Properties of the commit order\<close>

text \<open>
  C1. On the chain \<open>2 \<leftarrow> 3 \<leftarrow> 1\<close>, with the keys of the commit set visited in the order
  they were added, \<open>getAllCommitsTopological\<close> returns \<open>[3, 1, 2]\<close>: the commit \<open>3\<close> comes
  before its parent \<open>2\<close>. With the keys visited from the second on the same repository
  gives \<open>[2, 3, 1]\<close>. The comparison puts a commit before its child and otherwise
  compares the hashes as text, so the grandparent \<open>2\<close> is not less than the tip \<open>1\<close>, and
  the three commits are ordered in a circle. With the keys visited from the third on,
  the tip \<open>1\<close> comes first; then \<open>FilterRepo\<close> leaves the branch of \<open>replacedChainRepo\<close> at
  \<open>1\<close>, whose history still has the replaced root, where the other orders repoint it
  to the rewritten tip.
\<close>

theorem getAllCommitsTopological_chain:
  "getAllCommitsTopological rtInsertion chainRepo = [3, 1, 2] \<and>
   commitObject chainRepo 3 = Some (exCommit 16 [2]) \<and>
   getAllCommitsTopological rtRotated chainRepo = [2, 3, 1] \<and>
   getAllCommitsTopological rtRotatedTwice replacedChainRepo = [1, 2, 3] \<and>
   commitObject replacedChainRepo 1 = Some (exCommit 16 [3]) \<and>
   refs (snd (FilterRepo rtRotatedTwice toyStorer replacedChainRepo)) =
     [SymbolicReference ''HEAD'' ''refs/heads/main'',
      HashReference ''refs/heads/main'' 1,
      HashReference ''refs/replace/0000000000000000000000000000000000000002'' 42] \<and>
   refs (snd (FilterRepo rtRotated toyStorer replacedChainRepo)) =
     [SymbolicReference ''HEAD'' ''refs/heads/main'',
      HashReference ''refs/heads/main'' 219,
      HashReference ''refs/replace/0000000000000000000000000000000000000002'' 42]"
  by code_simp

section \<open>A commit graph with a cycle\<close>

text \<open>The commits \<open>1\<close> and \<open>2\<close> are each other's parent; \<open>7\<close> replaces \<open>2\<close>.\<close>

definition cycleRepo :: Repository where
  "cycleRepo = \<lparr>objects = [1 \<mapsto> CommitObject (exCommit 16 [2]),
                           2 \<mapsto> CommitObject (exCommit 16 [1]),
                           7 \<mapsto> CommitObject (exCommit 16 []),
                           16 \<mapsto> TreeObject \<lparr>Entries = []\<rparr>],
                refs = [HashReference ''refs/heads/main'' 1,
                        HashReference ''refs/replace/0000000000000000000000000000000000000002'' 7]\<rparr>"

lemma rewriteCommit_no_error:
  assumes "\<And>obj. \<not> encodeFails st obj" "\<And>obj. \<not> storeFails st obj"
  shows "\<exists>newHash repo'. rewriteCommit st repo oldHash commitMap = Inr (newHash, repo')"
  using assms
  by (auto simp: rewriteCommit_def setEncodedObject_def Let_def split: option.splits prod.splits)

lemma rewriteCommits_no_error:
  assumes "\<And>obj. \<not> encodeFails st obj" "\<And>obj. \<not> storeFails st obj"
  shows "fst (rewriteCommits st commits repo commitMap) = None"
proof (induction commits arbitrary: repo commitMap)
  case Nil
  then show ?case by simp
next
  case (Cons oldHash rest)
  from rewriteCommit_no_error[OF assms] obtain newHash repo' where
    "rewriteCommit st repo oldHash commitMap = Inr (newHash, repo')" by blast
  then show ?case using Cons.IH by simp
qed

lemma updateRefsLoop_no_error:
  assumes "\<And>r. \<not> setReferenceFails st r"
  shows "fst (updateRefsLoop st updates repo) = None"
  using assms by (induction st updates repo rule: updateRefsLoop.induct) (auto simp: Let_def)

text \<open>
  C9, as the code has it. \<open>walkCommits\<close> returns at a hash it has visited, so the walk
  ends on every commit graph (its termination is proved above for every repository).
  Nothing detects a cycle: when the repository has a replace reference, none of
  their names makes \<open>getReplaceRefs\<close> panic, and no write fails, \<open>FilterRepo\<close> returns
  without an error, whatever the commit graph is.
\<close>

theorem FilterRepo_no_cycle_error:
  assumes "getReplaceRefs repo = Inr replaceMap" and "replaceMap \<noteq> []"
    and "\<And>obj. \<not> encodeFails st obj" and "\<And>obj. \<not> storeFails st obj"
    and "\<And>r. \<not> setReferenceFails st r"
  shows "fst (FilterRepo rt st repo) = None"
proof -
  let ?commitMap = "directReplacements (rangeReplaceMap rt replaceMap)"
  let ?commits = "getAllCommitsTopological rt repo"
  obtain e repo' commitMap' where
    run: "rewriteCommits st ?commits repo ?commitMap = (e, repo', commitMap')"
    by (cases "rewriteCommits st ?commits repo ?commitMap") auto
  with rewriteCommits_no_error[OF assms(3,4), of ?commits repo ?commitMap]
  have "e = None" by simp
  with run assms(1,2) updateRefsLoop_no_error[OF assms(5)] show ?thesis
    by (simp add: FilterRepo_def Let_def updateAllReferences_def)
qed

theorem FilterRepo_no_cycle_error_witness:
  "getReplaceRefs cycleRepo =
     Inr [(''0000000000000000000000000000000000000002'',
           ''0000000000000000000000000000000000000007'')] \<and>
   fst (FilterRepo rtInsertion toyStorer cycleRepo) = None"
proof -
  have m: "getReplaceRefs cycleRepo =
     Inr [(''0000000000000000000000000000000000000002'',
           ''0000000000000000000000000000000000000007'')]"
    by code_simp
  have ne: "[(''0000000000000000000000000000000000000002'',
             ''0000000000000000000000000000000000000007'')] \<noteq> []" by simp
  have "fst (FilterRepo rtInsertion toyStorer cycleRepo) = None"
    by (rule FilterRepo_no_cycle_error[OF m ne]) (simp_all add: toyStorer_def)
  with m show ?thesis by (rule conjI)
qed

text \<open>
  The claim as stated fails on \<open>cycleRepo\<close>: the graph has a cycle and \<open>FilterRepo\<close>
  returns no error.
\<close>

theorem cycle_counterexample:
  "commitObject cycleRepo 1 = Some (exCommit 16 [2]) \<and>
   commitObject cycleRepo 2 = Some (exCommit 16 [1]) \<and>
   fst (FilterRepo rtInsertion toyStorer cycleRepo) = None"
  by code_simp

section \<open>replace.go\<close>

text \<open>\<open>BadCommit\<close> of types.go.\<close>

record BadCommit =
  bcHash :: string
  bcParentHash :: string
  bcTreeHash :: string
  bcAuthor :: string
  bcAuthorEmail :: string
  bcAuthorDate :: string
  bcCommitter :: string
  bcCommitterEmail :: string
  bcCommitterDate :: string
  bcMessage :: string
  bcIsRoot :: bool

definition emptyTree :: Object where
  "emptyTree = TreeObject \<lparr>Entries = []\<rparr>"

text \<open>
  \<open>CreateEmptyTree\<close>: encodes and stores a tree without entries and returns its hash
  as text.
\<close>

definition CreateEmptyTree :: "Storer \<Rightarrow> Repository \<Rightarrow> error + (string \<times> Repository)" where
  "CreateEmptyTree st repo =
     (if encodeFails st emptyTree then Inl ErrEncodeTree
      else (case setEncodedObject st repo emptyTree of
              None \<Rightarrow> Inl ErrStoreTree
            | Some (h, repo') \<Rightarrow> Inr (Hash_String h, repo')))"

text \<open>
  \<open>createMinimalReplacement\<close>. The errors of both \<open>Encode\<close> calls and of storing the
  empty tree are dropped by the source; a failed \<open>SetEncodedObject\<close> returns the zero
  hash.
\<close>

definition createMinimalReplacement ::
  "Runtime \<Rightarrow> Storer \<Rightarrow> Repository \<Rightarrow> BadCommit \<Rightarrow> error option \<times> Repository" where
  "createMinimalReplacement rt st repo badCommit =
     (let (emptyTreeHash, repo1) =
            (case treeObject repo (NewHash EmptyTreeHash) of
               Some t \<Rightarrow> (NewHash EmptyTreeHash, repo)
             | None \<Rightarrow>
                 (case setEncodedObject st repo emptyTree of
                    None \<Rightarrow> (ZeroHash, repo)
                  | Some (h, repo') \<Rightarrow> (h, repo')));
          sig = \<lparr>Name = ''NSHA Tool'', Email = ''nsha@fix.local'', When = timeNow rt\<rparr>;
          newCommit = \<lparr>Author = sig, Committer = sig, Message = bcMessage badCommit,
                       TreeHash = emptyTreeHash,
                       ParentHashes = (if bcParentHash badCommit \<noteq> ''''
                                       then [NewHash (bcParentHash badCommit)] else [])\<rparr>
      in case setEncodedObject st repo1 (CommitObject newCommit) of
           None \<Rightarrow> (Some ErrStoreCommit, repo1)
         | Some (newHash, repo2) \<Rightarrow>
             (let ref = HashReference (''refs/replace/'' @ bcHash badCommit) newHash
              in if setReferenceFails st ref
                 then (Some (ErrSetReference (refName ref)), repo2)
                 else (None, setReference repo2 ref)))"

text \<open>
  \<open>ReplaceCommit\<close>, from the opened repository on, in its three parts: the empty tree is
  looked up or created, the parent is kept when it is named, not the zero hash as text,
  and a commit of the repository; then the new commit is encoded and stored and the
  replace reference is set.
\<close>

definition getOrCreateEmptyTree :: "Storer \<Rightarrow> Repository \<Rightarrow> error + (hash \<times> Repository)" where
  "getOrCreateEmptyTree st repo =
     (case treeObject repo (NewHash EmptyTreeHash) of
        Some t \<Rightarrow> Inr (NewHash EmptyTreeHash, repo)
      | None \<Rightarrow>
          (case CreateEmptyTree st repo of
             Inl e \<Rightarrow> Inl e
           | Inr (emptyTreeStr, repo') \<Rightarrow> Inr (NewHash emptyTreeStr, repo')))"

definition validParent :: "Repository \<Rightarrow> BadCommit \<Rightarrow> hash list" where
  "validParent repo badCommit =
     (if bcParentHash badCommit \<noteq> '''' \<and>
         bcParentHash badCommit \<noteq> ''0000000000000000000000000000000000000000''
      then (case commitObject repo (NewHash (bcParentHash badCommit)) of
              Some p \<Rightarrow> [NewHash (bcParentHash badCommit)]
            | None \<Rightarrow> [])
      else [])"

definition storeReplacement ::
  "Storer \<Rightarrow> Repository \<Rightarrow> BadCommit \<Rightarrow> Commit \<Rightarrow> error option \<times> Repository" where
  "storeReplacement st repo badCommit newCommit =
     (if encodeFails st (CommitObject newCommit) then (Some ErrEncodeCommit, repo)
      else
        (case setEncodedObject st repo (CommitObject newCommit) of
           None \<Rightarrow> (Some ErrStoreCommit, repo)
         | Some (newHash, repo') \<Rightarrow>
             (let ref = HashReference (''refs/replace/'' @ bcHash badCommit) newHash
              in if setReferenceFails st ref
                 then (Some (ErrSetReference (refName ref)), repo')
                 else (None, setReference repo' ref))))"

definition ReplaceCommit ::
  "Runtime \<Rightarrow> Storer \<Rightarrow> Repository \<Rightarrow> BadCommit \<Rightarrow> error option \<times> Repository" where
  "ReplaceCommit rt st repo badCommit =
     (case commitObject repo (NewHash (bcHash badCommit)) of
        None \<Rightarrow> createMinimalReplacement rt st repo badCommit
      | Some oldCommit \<Rightarrow>
          (case getOrCreateEmptyTree st repo of
             Inl e \<Rightarrow> (Some e, repo)
           | Inr (emptyTreeHash, repo1) \<Rightarrow>
               storeReplacement st repo1 badCommit
                 \<lparr>Author = Author oldCommit, Committer = Committer oldCommit,
                  Message = Message oldCommit, TreeHash = emptyTreeHash,
                  ParentHashes = validParent repo1 badCommit\<rparr>))"

section \<open>Properties of the replacement commits\<close>

text \<open>
  A repository whose branch points at a commit \<open>9\<close> that is not stored, and the bad commit
  for it with a given parent.
\<close>

definition lostRepo :: Repository where
  "lostRepo = chainRepo\<lparr>refs := [HashReference ''refs/heads/main'' 9]\<rparr>"

definition lostCommit :: "string \<Rightarrow> BadCommit" where
  "lostCommit parent =
     \<lparr>bcHash = ''0000000000000000000000000000000000000009'', bcParentHash = parent,
      bcTreeHash = '''', bcAuthor = '''', bcAuthorEmail = '''', bcAuthorDate = '''',
      bcCommitter = '''', bcCommitterEmail = '''', bcCommitterDate = '''',
      bcMessage = ''lost'', bcIsRoot = False\<rparr>"

text \<open>
  C5. \<open>ReplaceCommit\<close> keeps the parent of a readable bad commit only when it is not the
  zero hash as text and is a commit of the repository (\<open>validParent\<close>).
  \<open>createMinimalReplacement\<close> has neither test: for the unreadable commit \<open>9\<close> the staged
  replacement has the parent \<open>11\<close>, which is no object of the repository, and with the
  zero hash as the parent it has the parent \<open>ZeroHash\<close>.
\<close>

theorem createMinimalReplacement_keeps_bad_parent:
  "commitObject lostRepo (NewHash ''0000000000000000000000000000000000000009'') = None \<and>
   commitObject lostRepo (NewHash ''000000000000000000000000000000000000000b'') = None \<and>
   (case ReplaceCommit rtInsertion toyStorer lostRepo
           (lostCommit ''000000000000000000000000000000000000000b'') of
      (err, repo') \<Rightarrow>
        err = None \<and>
        refs repo' =
          [HashReference ''refs/heads/main'' 9,
           HashReference ''refs/replace/0000000000000000000000000000000000000009''
             (NewHash EmptyTreeHash + 23)] \<and>
        map_option ParentHashes (commitObject repo' (NewHash EmptyTreeHash + 23)) = Some [11] \<and>
        commitObject repo' 11 = None) \<and>
   (case ReplaceCommit rtInsertion toyStorer lostRepo
           (lostCommit ''0000000000000000000000000000000000000000'') of
      (err, repo') \<Rightarrow>
        err = None \<and>
        refs repo' =
          [HashReference ''refs/heads/main'' 9,
           HashReference ''refs/replace/0000000000000000000000000000000000000009''
             (NewHash EmptyTreeHash + 1)] \<and>
        map_option ParentHashes (commitObject repo' (NewHash EmptyTreeHash + 1)) = Some [ZeroHash])"
  by code_simp










section \<open>Text\<close>

text \<open>
  Go strings are read as lists of 8-bit characters. \<open>strings.Contains\<close>, \<open>strings.Split\<close>
  with a separator of one character, and \<open>strings.TrimSpace\<close> for the ASCII white space.
\<close>

fun Contains :: "string \<Rightarrow> string \<Rightarrow> bool" where
  "Contains [] substr = (substr = [])"
| "Contains (c # s) substr = (HasPrefix (c # s) substr \<or> Contains s substr)"

fun Split :: "string \<Rightarrow> char \<Rightarrow> string list" where
  "Split [] sep = [[]]"
| "Split (c # s) sep =
     (if c = sep then [] # Split s sep
      else (case Split s sep of
              [] \<Rightarrow> [[c]]
            | part # parts \<Rightarrow> (c # part) # parts))"

definition isSpace :: "char \<Rightarrow> bool" where
  "isSpace c = (c \<in> set [CHR '' '', CHR 0x09, CHR 0x0A, CHR 0x0B, CHR 0x0C, CHR 0x0D])"

definition TrimSpace :: "string \<Rightarrow> string" where
  "TrimSpace s = rev (dropWhile isSpace (rev (dropWhile isSpace s)))"

definition nullSHA :: string where
  "nullSHA = ''0000000000000000000000000000000000000000''"

section \<open>fsck.go: RunFsck\<close>

datatype IssueType =
    IssueTypeNullSHA
  | IssueTypeMissingTree
  | IssueTypeMissingCommit
  | IssueTypeBrokenParent

text \<open>\<open>Issue\<close> of types.go.\<close>

record Issue =
  issueType :: IssueType
  issueObject :: string
  issueMessage :: string
  issueCommit :: string

text \<open>
  The loop over the lines of the output of \<open>git fsck --full\<close>; what it prints in verbose
  mode is left out.
\<close>

definition fsckLineIssues :: "string \<Rightarrow> Issue list" where
  "fsckLineIssues rawLine =
     (let line = TrimSpace rawLine
      in if line = '''' then []
         else if Contains line ''hash-path mismatch''
         then (let parts = Split line CHR '':''
               in if length parts \<ge> 2
                  then (let hash = hd (Split (TrimSpace (parts ! 1)) CHR '' '')
                        in if Contains line ''objects/00/0000000000000000000000000000000000000''
                           then [\<lparr>issueType = IssueTypeNullSHA, issueObject = hash,
                                  issueMessage = ''Object stored at null SHA path (hash-path mismatch)'',
                                  issueCommit = ''''\<rparr>]
                           else [])
                  else [])
         else if Contains line ''null sha1'' \<or> Contains line ''null SHA''
         then [\<lparr>issueType = IssueTypeNullSHA, issueObject = '''', issueMessage = line,
                issueCommit = ''''\<rparr>]
         else if Contains line ''missing''
         then [\<lparr>issueType = IssueTypeMissingCommit, issueObject = '''', issueMessage = line,
                issueCommit = ''''\<rparr>]
         else [])"

definition fsckOutputIssues :: "string \<Rightarrow> Issue list" where
  "fsckOutputIssues output =
     (if length output > 0 then concat (map fsckLineIssues (Split output CHR 0x0A)) else [])"

text \<open>The loop over \<open>commit.ParentHashes\<close> in the callback of \<open>refs.ForEach\<close>.\<close>

fun parentIssues :: "hash \<Rightarrow> hash list \<Rightarrow> Issue list" where
  "parentIssues commitHash [] = []"
| "parentIssues commitHash (parentHash # rest) =
     (if parentHash = ZeroHash \<or> Hash_String parentHash = nullSHA
      then \<lparr>issueType = IssueTypeBrokenParent, issueObject = Hash_String commitHash,
             issueMessage = ''Commit has null parent SHA'', issueCommit = ''''\<rparr>
           # parentIssues commitHash rest
      else parentIssues commitHash rest)"

text \<open>
  The callback of \<open>refs.ForEach\<close>: the issues one reference adds. The message of a commit
  that cannot be read carries go-git's error text.
\<close>

fun referenceIssues :: "Repository \<Rightarrow> Reference \<Rightarrow> Issue list" where
  "referenceIssues repo (SymbolicReference name target) = []"
| "referenceIssues repo (HashReference name h) =
     (if h = ZeroHash \<or> Hash_String h = nullSHA
      then [\<lparr>issueType = IssueTypeNullSHA, issueObject = name,
             issueMessage = ''Reference has null SHA'', issueCommit = ''''\<rparr>]
      else (case commitObject repo h of
              None \<Rightarrow>
                [\<lparr>issueType = IssueTypeMissingCommit, issueObject = Hash_String h,
                  issueMessage = ''Cannot read commit: object not found'', issueCommit = ''''\<rparr>]
            | Some commit \<Rightarrow>
                (case treeObject repo (TreeHash commit) of
                   None \<Rightarrow>
                     [\<lparr>issueType = IssueTypeMissingTree,
                       issueObject = Hash_String (TreeHash commit),
                       issueMessage = ''Commit references missing tree'',
                       issueCommit = Hash_String h\<rparr>]
                 | Some tree \<Rightarrow> [])
                @ parentIssues h (ParentHashes commit)))"

text \<open>
  \<open>RunFsck\<close>, given the output of \<open>git fsck --full\<close> and the opened repository.
\<close>

definition RunFsck :: "string \<Rightarrow> Repository \<Rightarrow> Issue list" where
  "RunFsck gitFsckOutput repo =
     fsckOutputIssues gitFsckOutput @ concat (map (referenceIssues repo) (refs repo))"

section \<open>Properties of RunFsck\<close>

lemma Hash_String_zero: "Hash_String h = nullSHA \<longleftrightarrow> h = ZeroHash"
proof
  assume "Hash_String h = nullSHA"
  then have "NewHash (Hash_String h) = NewHash nullSHA" by simp
  moreover have "NewHash nullSHA = ZeroHash" by code_simp
  ultimately show "h = ZeroHash" by (simp add: NewHash_Hash_String)
next
  assume "h = ZeroHash"
  moreover have "Hash_String ZeroHash = nullSHA" by code_simp
  ultimately show "Hash_String h = nullSHA" by simp
qed

lemma fsckLineIssues_types:
  "i \<in> set (fsckLineIssues line) \<Longrightarrow>
     issueType i = IssueTypeNullSHA \<or> issueType i = IssueTypeMissingCommit"
  by (auto simp: fsckLineIssues_def Let_def split: if_splits)

lemma fsckOutputIssues_filter:
  "filter (\<lambda>i. issueType i = IssueTypeMissingTree \<or> issueType i = IssueTypeBrokenParent)
     (fsckOutputIssues output) = []"
  by (auto simp: fsckOutputIssues_def filter_empty_conv dest!: fsckLineIssues_types)

text \<open>
  What the claim asks for one commit: a missing-tree issue when the tree does not
  resolve, and a broken-parent issue for each parent that is the zero hash.
\<close>

definition commitIssues :: "Repository \<Rightarrow> hash \<Rightarrow> Commit \<Rightarrow> Issue list" where
  "commitIssues repo h c =
     (if treeObject repo (TreeHash c) = None
      then [\<lparr>issueType = IssueTypeMissingTree, issueObject = Hash_String (TreeHash c),
             issueMessage = ''Commit references missing tree'', issueCommit = Hash_String h\<rparr>]
      else []) @
     map (\<lambda>p. \<lparr>issueType = IssueTypeBrokenParent, issueObject = Hash_String h,
                issueMessage = ''Commit has null parent SHA'', issueCommit = ''''\<rparr>)
       (filter (\<lambda>p. p = ZeroHash) (ParentHashes c))"

text \<open>The commit a reference points at directly, when it has one that can be read.\<close>

fun directCommit :: "Repository \<Rightarrow> Reference \<Rightarrow> (hash \<times> Commit) option" where
  "directCommit repo (SymbolicReference name target) = None"
| "directCommit repo (HashReference name h) =
     (if h = ZeroHash then None else map_option (Pair h) (commitObject repo h))"

lemma parentIssues_map:
  "parentIssues h ps =
     map (\<lambda>p. \<lparr>issueType = IssueTypeBrokenParent, issueObject = Hash_String h,
                issueMessage = ''Commit has null parent SHA'', issueCommit = ''''\<rparr>)
       (filter (\<lambda>p. p = ZeroHash) ps)"
  by (induction ps) (auto simp: Hash_String_zero)

lemma referenceIssues_filter:
  "filter (\<lambda>i. issueType i = IssueTypeMissingTree \<or> issueType i = IssueTypeBrokenParent)
     (referenceIssues repo ref) =
   (case directCommit repo ref of None \<Rightarrow> [] | Some (h, c) \<Rightarrow> commitIssues repo h c)"
proof (cases ref)
  case (HashReference name h)
  have keep: "\<And>ps. filter (\<lambda>i. issueType i = IssueTypeMissingTree \<or> issueType i = IssueTypeBrokenParent)
      (parentIssues h ps) = parentIssues h ps"
    by (simp add: parentIssues_map filter_map comp_def)
  show ?thesis
    unfolding HashReference
    by (simp add: Hash_String_zero keep commitIssues_def parentIssues_map[symmetric]
        split: option.splits)
next
  case (SymbolicReference name target)
  then show ?thesis by simp
qed

text \<open>
  A chain whose root \<open>2\<close> has a tree that is not stored, and what \<open>git fsck --full\<close>
  prints for it.
\<close>

definition deepRepo :: Repository where
  "deepRepo = \<lparr>objects = [2 \<mapsto> CommitObject (exCommit 99 []),
                          3 \<mapsto> CommitObject (exCommit 16 [2]),
                          1 \<mapsto> CommitObject (exCommit 16 [3]),
                          16 \<mapsto> TreeObject \<lparr>Entries = []\<rparr>],
               refs = [SymbolicReference ''HEAD'' ''refs/heads/main'',
                       HashReference ''refs/heads/main'' 1]\<rparr>"

definition deepFsckOutput :: string where
  "deepFsckOutput =
     ''broken link from  commit 0000000000000000000000000000000000000002'' @ [CHR 0x0A] @
     ''              to    tree 0000000000000000000000000000000000000063'' @ [CHR 0x0A] @
     ''missing tree 0000000000000000000000000000000000000063'' @ [CHR 0x0A]"

text \<open>
  C2, as the code has it. Whatever \<open>git fsck\<close> printed, the missing-tree and broken-parent
  issues of \<open>RunFsck\<close> are, reference by reference in the order of the references, those
  of the commit the reference points at directly (none for a symbolic reference, a zero
  reference or a commit that cannot be read): a missing-tree issue when its tree does
  not resolve, and one broken-parent issue for each parent that is the zero hash.
  Parents are not followed, a parent that is not zero is not looked up, and a commit
  that two references point at is checked twice.
\<close>

theorem RunFsck_checks_direct_targets:
  "filter (\<lambda>i. issueType i = IssueTypeMissingTree \<or> issueType i = IssueTypeBrokenParent)
     (RunFsck gitFsckOutput repo) =
   concat (map (\<lambda>ref. case directCommit repo ref of
                         None \<Rightarrow> []
                       | Some (h, c) \<Rightarrow> commitIssues repo h c) (refs repo))"
  by (simp add: RunFsck_def fsckOutputIssues_filter filter_concat comp_def referenceIssues_filter)

theorem RunFsck_checks_direct_targets_witness:
  "filter (\<lambda>i. issueType i = IssueTypeMissingTree \<or> issueType i = IssueTypeBrokenParent)
     (RunFsck deepFsckOutput deepRepo) = []"
proof -
  have "concat (map (\<lambda>ref. case directCommit deepRepo ref of
                         None \<Rightarrow> []
                       | Some (h, c) \<Rightarrow> commitIssues deepRepo h c) (refs deepRepo)) = []"
    by code_simp
  with RunFsck_checks_direct_targets[of deepFsckOutput deepRepo] show ?thesis by simp
qed

text \<open>
  The claim as stated fails on \<open>deepRepo\<close>: the commit \<open>2\<close> is reached from the branch,
  its tree \<open>99\<close> does not resolve, and \<open>RunFsck\<close> reports no missing-tree issue: its one
  issue is the line of \<open>git fsck\<close> with the word "missing", filed as a missing commit.
\<close>

theorem deep_commit_counterexample:
  "commitObject deepRepo 2 = Some (exCommit 99 []) \<and>
   treeObject deepRepo 99 = None \<and>
   walkAll deepRepo [1] [] = [1, 3, 2] \<and>
   RunFsck deepFsckOutput deepRepo =
     [\<lparr>issueType = IssueTypeMissingCommit, issueObject = '''',
       issueMessage = ''missing tree 0000000000000000000000000000000000000063'',
       issueCommit = ''''\<rparr>]"
  by code_simp

section \<open>fsck.go: FixMissingCommits\<close>

text \<open>
  \<open>s.Reference(name)\<close> and \<open>repo.Reference(name, true)\<close> of go-git: the reference of a name,
  and the hash reference it resolves to through at most 1025 symbolic references.
\<close>

definition lookupRef :: "Reference list \<Rightarrow> string \<Rightarrow> Reference option" where
  "lookupRef rs name = find (\<lambda>r. refName r = name) rs"





fun firstValidBranch :: "Reference list \<Rightarrow> string option" where
  "firstValidBranch [] = None"
| "firstValidBranch (ref # rest) =
     (if IsBranch (refName ref) \<and> Hash_String (refHash ref) \<noteq> nullSHA
      then Some (refName ref)
      else firstValidBranch rest)"











section \<open>Properties of FixMissingCommits\<close>





lemma lookupRef_None_iff: "lookupRef rs name = None \<longleftrightarrow> name \<notin> refName ` set rs"
  by (auto simp: lookupRef_def find_None_iff)











lemma firstValidBranch_nonempty: "firstValidBranch rs = Some v \<Longrightarrow> v \<noteq> ''''"
  by (induction rs) (auto simp: IsBranch_def HasPrefix_def split: if_splits)












section \<open>fsck.go: FixTreeCorruptionWithGitCommands\<close>

text \<open>
  \<open>strings.Fields\<close> (for the ASCII white space), \<open>strings.TrimSuffix\<close> and \<open>strings.Join\<close>.
\<close>

fun splitSpaces :: "string \<Rightarrow> string list" where
  "splitSpaces [] = [[]]"
| "splitSpaces (c # s) =
     (if isSpace c then [] # splitSpaces s
      else (case splitSpaces s of
              [] \<Rightarrow> [[c]]
            | part # parts \<Rightarrow> (c # part) # parts))"

definition Fields :: "string \<Rightarrow> string list" where
  "Fields s = filter (\<lambda>part. part \<noteq> []) (splitSpaces s)"

definition TrimSuffix :: "string \<Rightarrow> string \<Rightarrow> string" where
  "TrimSuffix s suffix =
     (if length suffix \<le> length s \<and> drop (length s - length suffix) s = suffix
      then take (length s - length suffix) s
      else s)"

fun Join :: "string list \<Rightarrow> string \<Rightarrow> string" where
  "Join [] sep = []"
| "Join [s] sep = s"
| "Join (s # t # rest) sep = s @ sep @ Join (t # rest) sep"

text \<open>
  The git commands the function runs. The repository on disk is a state \<open>'s\<close> that the
  commands read and change; a command that exits with an error gives \<open>None\<close>.
  \<open>updateCommitsWithNewTree\<close> runs further git commands on that state and is taken as
  given, with the count it returns (\<open>None\<close> for its error).
\<close>

record 's GitCommands =
  fsckFull :: "'s \<Rightarrow> string"
  catFileP :: "'s \<Rightarrow> string \<Rightarrow> string option"
  lsTreeFull :: "'s \<Rightarrow> string \<Rightarrow> string option"
  mktree :: "'s \<Rightarrow> string \<Rightarrow> string option \<times> 's"
  updateCommitsWithNewTree :: "'s \<Rightarrow> string \<Rightarrow> string \<Rightarrow> nat option \<times> 's"

text \<open>
  The loop over the fields of a line of \<open>git fsck\<close>: the field after the first \<open>tree\<close>
  that has a field after it, without a closing colon, when it is 40 characters long.
\<close>

fun treeAfter :: "string list \<Rightarrow> string option" where
  "treeAfter [] = None"
| "treeAfter (part # rest) =
     (if part = ''tree'' \<and> rest \<noteq> []
      then (let treeHash = TrimSuffix (hd rest) '':''
            in if length treeHash = 40 then Some treeHash else None)
      else treeAfter rest)"

definition corruptedTreesOf :: "string \<Rightarrow> string list" where
  "corruptedTreesOf output =
     concat (map (\<lambda>line.
                    if Contains line ''nullSha1'' \<or> Contains line ''null sha1''
                    then (case treeAfter (Fields line) of Some treeHash \<Rightarrow> [treeHash] | None \<Rightarrow> [])
                    else [])
               (Split output CHR 0x0A))"

text \<open>
  The loop over the lines of the listing of a tree: the lines kept for the new tree,
  and the number of lines dropped.
\<close>

fun filterEntries :: "string list \<Rightarrow> string list \<times> nat \<Rightarrow> string list \<times> nat" where
  "filterEntries [] (validEntries, nullEntriesFound) = (validEntries, nullEntriesFound)"
| "filterEntries (rawLine # rest) (validEntries, nullEntriesFound) =
     (let line = TrimSpace rawLine
      in if line = '''' then filterEntries rest (validEntries, nullEntriesFound)
         else if Contains line nullSHA
              then filterEntries rest (validEntries, nullEntriesFound + 1)
              else filterEntries rest (validEntries @ [line], nullEntriesFound))"

text \<open>
  The body of the loop over the corrupted trees, up to the choice of \<open>newTreeHash\<close>:
  \<open>None\<close> where the source goes on to the next tree without a replacement. In verbose
  mode the function prints \<open>newTreeHash[:8]\<close> of the tree \<open>git mktree\<close> made, which panics
  on an output shorter than 8.
\<close>

definition newTreeFromListing ::
  "'s GitCommands \<Rightarrow> bool \<Rightarrow> 's \<Rightarrow> string \<Rightarrow> error + (string option \<times> 's)" where
  "newTreeFromListing git verbose s treeOutput =
     (case filterEntries (Split treeOutput CHR 0x0A) ([], 0) of
        (validEntries, nullEntriesFound) \<Rightarrow>
          if nullEntriesFound = 0 then Inr (None, s)
          else if length validEntries = 0 then Inr (Some EmptyTreeHash, s)
          else (case mktree git s (Join validEntries [CHR 0x0A] @ [CHR 0x0A]) of
                  (None, s') \<Rightarrow> Inr (None, s')
                | (Some newTreeOutput, s') \<Rightarrow>
                    if verbose \<and> length (TrimSpace newTreeOutput) < 8 then Inl PanicSliceBounds
                    else Inr (Some (TrimSpace newTreeOutput), s')))"

definition chooseNewTree ::
  "'s GitCommands \<Rightarrow> bool \<Rightarrow> 's \<Rightarrow> string \<Rightarrow> error + (string option \<times> 's)" where
  "chooseNewTree git verbose s treeHash =
     (case catFileP git s treeHash of
        Some treeOutput \<Rightarrow> newTreeFromListing git verbose s treeOutput
      | None \<Rightarrow>
          (case lsTreeFull git s treeHash of
             Some treeOutput \<Rightarrow> newTreeFromListing git verbose s treeOutput
           | None \<Rightarrow> Inr (Some EmptyTreeHash, s)))"

text \<open>
  The loop over the corrupted trees. A tree that could not be read counts as fixed when
  a commit was updated; a tree that was read counts as fixed unless updating the commits
  failed.
\<close>

fun fixTreesLoop ::
  "'s GitCommands \<Rightarrow> bool \<Rightarrow> bool \<Rightarrow> string list \<Rightarrow> nat \<times> 's \<Rightarrow> error + (nat \<times> 's)" where
  "fixTreesLoop git verbose dryRun [] (fixedCount, s) = Inr (fixedCount, s)"
| "fixTreesLoop git verbose dryRun (treeHash # rest) (fixedCount, s) =
     (if dryRun then fixTreesLoop git verbose dryRun rest (fixedCount + 1, s)
      else (case chooseNewTree git verbose s treeHash of
              Inl e \<Rightarrow> Inl e
            | Inr (None, s1) \<Rightarrow> fixTreesLoop git verbose dryRun rest (fixedCount, s1)
            | Inr (Some newTreeHash, s1) \<Rightarrow>
                (case updateCommitsWithNewTree git s1 treeHash newTreeHash of
                   (None, s2) \<Rightarrow> fixTreesLoop git verbose dryRun rest (fixedCount, s2)
                 | (Some updated, s2) \<Rightarrow>
                     if catFileP git s treeHash = None \<and> lsTreeFull git s treeHash = None
                        \<and> updated = 0
                     then fixTreesLoop git verbose dryRun rest (fixedCount, s2)
                     else fixTreesLoop git verbose dryRun rest (fixedCount + 1, s2))))"

definition FixTreeCorruptionWithGitCommands ::
  "'s GitCommands \<Rightarrow> bool \<Rightarrow> bool \<Rightarrow> 's \<Rightarrow> error + (nat \<times> 's)" where
  "FixTreeCorruptionWithGitCommands git verbose dryRun s =
     (let corruptedTrees = corruptedTreesOf (fsckFull git s)
      in if length corruptedTrees = 0 then Inr (0, s)
         else fixTreesLoop git verbose dryRun corruptedTrees (0, s))"

section \<open>Properties of the tree sanitizer\<close>

text \<open>
  The listing of a tree of three entries, as \<open>git cat-file -p\<close> prints it: the first entry
  has the zero hash, the second a hash that is not zero and a name that holds forty
  zeros, the third is sound.
\<close>

definition zerosNameListing :: string where
  "zerosNameListing =
     ''100644 blob 0000000000000000000000000000000000000000'' @ [CHR 0x09] @ ''broken.txt'' @ [CHR 0x0A] @
     ''100644 blob 00000000000000000000000000000000000000aa'' @ [CHR 0x09] @
       ''0000000000000000000000000000000000000000.patch'' @ [CHR 0x0A] @
     ''100644 blob 00000000000000000000000000000000000000bb'' @ [CHR 0x09] @ ''README'' @ [CHR 0x0A]"

text \<open>
  Git commands on a repository that does not change: the tree \<open>...0c\<close> has the listing
  above, and \<open>git mktree\<close> answers with the hash \<open>...0d\<close>.
\<close>

definition listingGit :: "unit GitCommands" where
  "listingGit =
     \<lparr>fsckFull = (\<lambda>s. ''warning in tree 000000000000000000000000000000000000000c: nullSha1: contains entries pointing to null sha1''),
      catFileP = (\<lambda>s treeHash.
         if treeHash = ''000000000000000000000000000000000000000c'' then Some zerosNameListing else None),
      lsTreeFull = (\<lambda>s treeHash. None),
      mktree = (\<lambda>s input. (Some (''000000000000000000000000000000000000000d'' @ [CHR 0x0A]), s)),
      updateCommitsWithNewTree = (\<lambda>s oldTree newTree. (Some 1, s))\<rparr>"


text \<open>
  C7. Of the three entries of \<open>zerosNameListing\<close> only the last is given to
  \<open>git mktree\<close>: the entry \<open>0000000000000000000000000000000000000000.patch\<close>, whose hash
  \<open>...aa\<close> is not zero, is dropped with the zero entry, because the whole line is
  searched for forty zeros.
\<close>

theorem filterEntries_drops_named_zeros:
  "corruptedTreesOf (fsckFull listingGit ()) = [''000000000000000000000000000000000000000c''] \<and>
   filterEntries (Split zerosNameListing CHR 0x0A) ([], 0) =
     ([''100644 blob 00000000000000000000000000000000000000bb'' @ [CHR 0x09] @ ''README''], 2) \<and>
   chooseNewTree listingGit False () ''000000000000000000000000000000000000000c'' =
     Inr (Some ''000000000000000000000000000000000000000d'', ()) \<and>
   FixTreeCorruptionWithGitCommands listingGit False False () = Inr (1, ())"
  by code_simp

end
